theory Spec2Isabelle
  imports Complex_Main "HOL-Library.AList"
begin

section \<open>Values, exceptions and the session state\<close>

text \<open>
  The dashboard is one Python script (\<^verbatim>\<open>app.py\<close>) that is re-run on every interaction and
  keeps its data in \<^verbatim>\<open>st.session_state\<close>. Python floats are modelled as \<^typ>\<open>real\<close>
  (no rounding, no NaN, no infinities), Python strings as \<^typ>\<open>string\<close>, and an exception
  that a statement may raise as the left injection of a sum.
\<close>

datatype py_exception =
  KeyError | TypeError | ValueError | AttributeError | IndexError | ZeroDivisionError

text \<open>A value stored in one of the heterogeneous dictionaries of the exports.\<close>

datatype pyval = PyNone | PyStr string | PyFloat real

type_synonym pydict = "(string \<times> pyval) list"

text \<open>
  The keys of \<^verbatim>\<open>st.session_state\<close> are fixed by the initialisation block of the script
  (section 4 of \<^verbatim>\<open>app.py\<close>): \<^verbatim>\<open>session_id\<close>, one \<^verbatim>\<open>input_<feature>\<close> per feature,
  \<^verbatim>\<open>churn_risk_score\<close>, \<^verbatim>\<open>timestamp\<close> and \<^verbatim>\<open>compute_latency\<close>. The six numeric inputs
  are what the sliders return (floats), the two categorical inputs are what the select
  boxes return (strings). The score and the timestamp are \<^verbatim>\<open>None\<close> before the first run.
\<close>

record session_state =
  session_id :: string
  input_Age :: real
  input_Gender :: string
  input_Support_Calls :: real
  input_Payment_Delay :: real
  input_Subscription_Type :: string
  input_Contract_Length :: real
  input_Total_Spend :: real
  input_Last_Interaction :: real
  churn_risk_score :: "real option"
  timestamp :: "string option"
  compute_latency :: real

definition FEATURE_VECTORS :: "string list" where
  "FEATURE_VECTORS =
     [''Age'', ''Gender'', ''Support Calls'', ''Payment Delay'', ''Subscription Type'',
      ''Contract Length'', ''Total Spend'', ''Last Interaction'']"

text \<open>
  The state after the initialisation block, for a session whose generated identifier is
  \<open>sess_id\<close>: the categorical defaults, and \<^verbatim>\<open>GLOBAL_BASELINES\<close> for the numeric inputs.
\<close>

definition initial_session_state :: "string \<Rightarrow> session_state" where
  "initial_session_state sess_id =
     \<lparr>session_id = sess_id,
      input_Age = 35,
      input_Gender = ''Female'',
      input_Support_Calls = 2,
      input_Payment_Delay = 5,
      input_Subscription_Type = ''Standard'',
      input_Contract_Length = 12,
      input_Total_Spend = 1500,
      input_Last_Interaction = 14,
      churn_risk_score = None,
      timestamp = None,
      compute_latency = 0\<rparr>"

section \<open>Tab 1: the prediction pipeline\<close>

subsection \<open>Normalisation of the raw regressor output\<close>

text \<open>
  \<^verbatim>\<open>normalized_risk = min(max(float(raw_pred), 0.0), 1.0) * 100.0\<close>
  \<^verbatim>\<open>if raw_pred > 2.0: normalized_risk = min(float(raw_pred), 100.0)\<close>
\<close>

definition normalized_risk :: "real \<Rightarrow> real" where
  "normalized_risk raw_pred =
     (let normalized = min (max raw_pred 0) 1 * 100
      in if raw_pred > 2 then min raw_pred 100 else normalized)"

subsection \<open>The primary risk output box\<close>

text \<open>
  The \<^verbatim>\<open>if risk > 60 / elif risk > 30 / else\<close> chain that picks the title of the result
  box and its style class. The box is drawn only when a score is stored.
\<close>

definition title_text :: "real \<Rightarrow> string" where
  "title_text risk =
     (if risk > 60 then ''HIGH CHURN PROBABILITY DETECTED''
      else if risk > 30 then ''MODERATE ATTRITION RISK''
      else ''CUSTOMER RETENTION SECURE'')"

definition box_class :: "real \<Rightarrow> string" where
  "box_class risk =
     (if risk > 60 then ''prediction-box''
      else if risk > 30 then ''prediction-box''
      else ''prediction-box prediction-box-safe'')"

definition render_primary_risk_output :: "session_state \<Rightarrow> (string \<times> string) option" where
  "render_primary_risk_output st =
     (case churn_risk_score st of
        None \<Rightarrow> None
      | Some risk \<Rightarrow> Some (box_class risk, title_text risk))"

subsection \<open>Label encoding with the manual fallback\<close>

text \<open>
  The two artifacts come from pickle files that are not part of the script, so their
  behaviour is a parameter. For the encoder, the only expression the script evaluates is
  \<^verbatim>\<open>encoder[column].transform([label])[0]\<close>: it either yields an integer code or raises
  (a wrong object shape, a missing column, an unseen label). The predictor is only used
  as \<^verbatim>\<open>model.predict(payload)[0]\<close>. \<^verbatim>\<open>None\<close> stands for an artifact that failed to load.
\<close>

type_synonym encoder = "string \<Rightarrow> string \<Rightarrow> py_exception + int"

type_synonym predictor = "real list list \<Rightarrow> real"

definition manual_gender :: "string \<rightharpoonup> int" where
  "manual_gender = [''Female'' \<mapsto> 0, ''Male'' \<mapsto> 1, ''Other'' \<mapsto> 2]"

definition manual_sub :: "string \<rightharpoonup> int" where
  "manual_sub = [''Basic'' \<mapsto> 0, ''Premium'' \<mapsto> 1, ''Standard'' \<mapsto> 2]"

text \<open>\<^verbatim>\<open>d.get(key, default)\<close>\<close>

definition dict_get :: "('k \<rightharpoonup> 'v) \<Rightarrow> 'k \<Rightarrow> 'v \<Rightarrow> 'v" where
  "dict_get d key dflt = (case d key of None \<Rightarrow> dflt | Some v \<Rightarrow> v)"

text \<open>
  The body of the \<^verbatim>\<open>try\<close>: it raises \<^verbatim>\<open>ValueError("No encoder")\<close> when no encoder is
  loaded, and otherwise looks up the gender first and the subscription second; the first
  exception leaves the block.
\<close>

definition try_encoder :: "encoder option \<Rightarrow> string \<Rightarrow> string \<Rightarrow> py_exception + (int \<times> int)" where
  "try_encoder enc input_gender input_sub =
     (case enc of
        None \<Rightarrow> Inl ValueError
      | Some e \<Rightarrow>
          (case e ''Gender'' input_gender of
             Inl ex \<Rightarrow> Inl ex
           | Inr gender_val \<Rightarrow>
               (case e ''Subscription Type'' input_sub of
                  Inl ex \<Rightarrow> Inl ex
                | Inr sub_val \<Rightarrow> Inr (gender_val, sub_val))))"

text \<open>
  \<^verbatim>\<open>try: ... except Exception: ...\<close>: every exception of the block is caught (all of
  \<^typ>\<open>py_exception\<close> are subclasses of \<^verbatim>\<open>Exception\<close>), and the handler assigns both
  codes from the manual tables, also when the gender lookup had succeeded.
\<close>

definition encode_categoricals :: "encoder option \<Rightarrow> string \<Rightarrow> string \<Rightarrow> int \<times> int" where
  "encode_categoricals enc input_gender input_sub =
     (case try_encoder enc input_gender input_sub of
        Inr codes \<Rightarrow> codes
      | Inl ex \<Rightarrow> (dict_get manual_gender input_gender 0, dict_get manual_sub input_sub 0))"

text \<open>
  The encoding step as the pipeline description words it, field by field: each field gets
  the encoder's code when the lookup of that field succeeds, and the code of the manual
  table when no encoder is loaded or the lookup of that field raises. It is stated to be
  compared with \<^const>\<open>encode_categoricals\<close>.
\<close>

definition encode_per_field :: "encoder option \<Rightarrow> string \<Rightarrow> string \<Rightarrow> int \<times> int" where
  "encode_per_field enc input_gender input_sub =
     (case enc of
        None \<Rightarrow> (dict_get manual_gender input_gender 0, dict_get manual_sub input_sub 0)
      | Some e \<Rightarrow>
          ((case e ''Gender'' input_gender of
              Inr gender_val \<Rightarrow> gender_val
            | Inl ex \<Rightarrow> dict_get manual_gender input_gender 0),
           (case e ''Subscription Type'' input_sub of
              Inr sub_val \<Rightarrow> sub_val
            | Inl ex \<Rightarrow> dict_get manual_sub input_sub 0)))"

subsection \<open>Feature assembly\<close>

text \<open>The \<^verbatim>\<open>np.array([[...]])\<close> payload: one row, the integer codes converted to floats.\<close>

definition payload :: "session_state \<Rightarrow> int \<Rightarrow> int \<Rightarrow> real list list" where
  "payload st gender_val sub_val =
     [[input_Age st,
       real_of_int gender_val,
       input_Support_Calls st,
       input_Payment_Delay st,
       real_of_int sub_val,
       input_Contract_Length st,
       input_Total_Spend st,
       input_Last_Interaction st]]"

subsection \<open>The run triggered by the button\<close>

text \<open>\<^verbatim>\<open>round(x, ndigits)\<close> on a float: to the nearest multiple, ties to the even one.\<close>

definition py_round :: "real \<Rightarrow> nat \<Rightarrow> real" where
  "py_round x ndigits =
     (let y = x * 10 ^ ndigits; f = \<lfloor>y\<rfloor>; d = y - of_int f
      in of_int (if d < 1/2 then f else if d > 1/2 then f + 1
                 else if even f then f else f + 1) / 10 ^ ndigits)"

definition SYSTEM_HALT :: string where
  "SYSTEM_HALT =
     ''SYSTEM HALT: `model.pkl` absent from directory. Cannot initialize Decision Tree kernel.''"

text \<open>
  The block \<^verbatim>\<open>if evaluate_clicked: ...\<close>. The clock readings (\<^verbatim>\<open>time.time()\<close> before and
  after, \<^verbatim>\<open>datetime.now()\<close> formatted) are inputs. The result is the message given to
  \<^verbatim>\<open>st.error\<close>, if any, and the session state after the block.
\<close>

definition execute_churn_engine ::
  "bool \<Rightarrow> predictor option \<Rightarrow> encoder option \<Rightarrow> real \<Rightarrow> real \<Rightarrow> string \<Rightarrow>
   session_state \<Rightarrow> string option \<times> session_state" where
  "execute_churn_engine evaluate_clicked model enc start_time end_time now st =
     (if evaluate_clicked then
        (case model of
           None \<Rightarrow> (Some SYSTEM_HALT, st)
         | Some m \<Rightarrow>
             (let (gender_val, sub_val) =
                    encode_categoricals enc (input_Gender st) (input_Subscription_Type st);
                  raw_pred = m (payload st gender_val sub_val)
              in (None,
                  st\<lparr>churn_risk_score := Some (normalized_risk raw_pred),
                     timestamp := Some now,
                     compute_latency := py_round (end_time - start_time) 3\<rparr>)))
      else (None, st))"

section \<open>Tab 4: revenue impact simulation\<close>

text \<open>Float division raises on a zero divisor.\<close>

definition py_truediv :: "real \<Rightarrow> real \<Rightarrow> py_exception + real" where
  "py_truediv a b = (if b = 0 then Inl ZeroDivisionError else Inr (a / b))"

record revenue =
  mrr :: real
  annual_revenue :: real
  revenue_at_risk :: real
  revenue_secured :: real

text \<open>\<^verbatim>\<open>None\<close> is the placeholder shown while no score is stored.\<close>

definition revenue_simulation :: "session_state \<Rightarrow> (py_exception + revenue) option" where
  "revenue_simulation st =
     (case churn_risk_score st of
        None \<Rightarrow> None
      | Some score \<Rightarrow>
          Some (let risk = score / 100;
                    ltv = input_Total_Spend st
                in case py_truediv ltv (input_Contract_Length st + 1) of
                     Inl ex \<Rightarrow> Inl ex
                   | Inr m \<Rightarrow>
                       (let annual = m * 12
                        in Inr \<lparr>mrr = m,
                                annual_revenue = annual,
                                revenue_at_risk = annual * risk,
                                revenue_secured = annual * (1 - risk)\<rparr>)))"

section \<open>Tab 5: cohort variance\<close>

text \<open>
  NumPy's global generator is not part of the script. Its state is a type \<open>'g\<close>;
  \<^verbatim>\<open>np.random.seed(n)\<close> replaces the state by one computed from \<open>n\<close> alone (\<open>seed\<close>), and a
  standard normal draw (\<open>gauss\<close>) returns a number and the next state. Both are parameters.
  \<^verbatim>\<open>np.random.normal(loc, scale, size)\<close> makes \<open>size\<close> draws, each \<open>loc + scale * z\<close>.
\<close>

fun np_random_normal :: "('g \<Rightarrow> real \<times> 'g) \<Rightarrow> real \<Rightarrow> real \<Rightarrow> nat \<Rightarrow> 'g \<Rightarrow> real list \<times> 'g" where
  "np_random_normal gauss loc scale 0 g = ([], g)"
| "np_random_normal gauss loc scale (Suc n) g =
     (let (z, g') = gauss g;
          (xs, g'') = np_random_normal gauss loc scale n g'
      in ((loc + scale * z) # xs, g''))"

definition np_clip :: "real list \<Rightarrow> real \<Rightarrow> real \<Rightarrow> real list" where
  "np_clip xs lo hi = map (\<lambda>x. min (max x lo) hi) xs"

text \<open>
  The cohort of tab 5 for a stored score, run from the generator state \<open>g\<close> that earlier
  code left behind; the result is the clipped cohort and the state after the draws.
\<close>

definition simulated_cohort ::
  "(nat \<Rightarrow> 'g) \<Rightarrow> ('g \<Rightarrow> real \<times> 'g) \<Rightarrow> 'g \<Rightarrow> real \<Rightarrow> real list \<times> 'g" where
  "simulated_cohort seed gauss g base_risk =
     (let g0 = seed 42;
          error_variance = 7;
          (cohort, g1) = np_random_normal gauss base_risk error_variance 100 g0
      in (np_clip cohort 0 100, g1))"

definition cohort_variance ::
  "(nat \<Rightarrow> 'g) \<Rightarrow> ('g \<Rightarrow> real \<times> 'g) \<Rightarrow> 'g \<Rightarrow> session_state \<Rightarrow> (real list \<times> 'g) option" where
  "cohort_variance seed gauss g st =
     (case churn_risk_score st of
        None \<Rightarrow> None
      | Some base_risk \<Rightarrow> Some (simulated_cohort seed gauss g base_risk))"

section \<open>Tab 6: the retention dossier and its two exports\<close>

text \<open>\<^verbatim>\<open>st.session_state[key]\<close> as a heterogeneous value; an unknown key raises.\<close>

definition py_of_str_option :: "string option \<Rightarrow> pyval" where
  "py_of_str_option x = (case x of None \<Rightarrow> PyNone | Some s \<Rightarrow> PyStr s)"

definition py_of_float_option :: "real option \<Rightarrow> pyval" where
  "py_of_float_option x = (case x of None \<Rightarrow> PyNone | Some r \<Rightarrow> PyFloat r)"

definition session_state_getitem :: "session_state \<Rightarrow> string \<Rightarrow> py_exception + pyval" where
  "session_state_getitem st key =
     (if key = ''session_id'' then Inr (PyStr (session_id st))
      else if key = ''input_Age'' then Inr (PyFloat (input_Age st))
      else if key = ''input_Gender'' then Inr (PyStr (input_Gender st))
      else if key = ''input_Support Calls'' then Inr (PyFloat (input_Support_Calls st))
      else if key = ''input_Payment Delay'' then Inr (PyFloat (input_Payment_Delay st))
      else if key = ''input_Subscription Type'' then Inr (PyStr (input_Subscription_Type st))
      else if key = ''input_Contract Length'' then Inr (PyFloat (input_Contract_Length st))
      else if key = ''input_Total Spend'' then Inr (PyFloat (input_Total_Spend st))
      else if key = ''input_Last Interaction'' then Inr (PyFloat (input_Last_Interaction st))
      else if key = ''churn_risk_score'' then Inr (py_of_float_option (churn_risk_score st))
      else if key = ''timestamp'' then Inr (py_of_str_option (timestamp st))
      else if key = ''compute_latency'' then Inr (PyFloat (compute_latency st))
      else Inl KeyError)"

text \<open>\<^verbatim>\<open>{t: st.session_state[f"input_{t}"] for t in features}\<close>\<close>

fun customer_telemetry :: "session_state \<Rightarrow> string list \<Rightarrow> py_exception + pydict" where
  "customer_telemetry st [] = Inr []"
| "customer_telemetry st (t # ts) =
     (case session_state_getitem st (''input_'' @ t) of
        Inl ex \<Rightarrow> Inl ex
      | Inr v \<Rightarrow>
          (case customer_telemetry st ts of
             Inl ex \<Rightarrow> Inl ex
           | Inr items \<Rightarrow> Inr ((t, v) # items)))"

definition dossier_status :: "real \<Rightarrow> string" where
  "dossier_status risk = (if risk \<ge> 50 then ''High Risk'' else ''Secure'')"

text \<open>The nested dictionary \<^verbatim>\<open>json_payload\<close>, in insertion order.\<close>

definition json_payload ::
  "session_state \<Rightarrow> real \<Rightarrow> string option \<Rightarrow> string \<Rightarrow> py_exception + (string \<times> pydict) list" where
  "json_payload st risk ts sess_id =
     (case customer_telemetry st FEATURE_VECTORS of
        Inl ex \<Rightarrow> Inl ex
      | Inr telemetry \<Rightarrow>
          Inr [(''metadata'',
                  [(''transaction_id'', PyStr sess_id),
                   (''timestamp'', py_of_str_option ts),
                   (''model_architecture'', PyStr ''DecisionTreeRegressor''),
                   (''validation_accuracy'', PyFloat 0.930)]),
               (''churn_prediction'',
                  [(''risk_score_percentage'', PyFloat risk),
                   (''status'', PyStr (dossier_status risk))]),
               (''customer_telemetry'', telemetry)])"

text \<open>
  \<^verbatim>\<open>pd.DataFrame([json_payload["customer_telemetry"]]).assign(Churn_Risk_Pct=risk, Timestamp=ts)\<close>:
  a frame of one row, kept as its ordered list of (column, cell). \<^verbatim>\<open>assign\<close> overwrites a
  column of the same name and appends a new one otherwise, which is \<^const>\<open>AList.update\<close>.
  The text that \<^verbatim>\<open>to_csv\<close> and \<^verbatim>\<open>json.dumps\<close> make of the two values is not modelled.
\<close>

definition csv_data :: "(string \<times> pydict) list \<Rightarrow> real \<Rightarrow> string option \<Rightarrow> py_exception + pydict" where
  "csv_data jp risk ts =
     (case map_of jp ''customer_telemetry'' of
        None \<Rightarrow> Inl KeyError
      | Some telemetry \<Rightarrow>
          Inr (AList.update ''Timestamp'' (py_of_str_option ts)
                 (AList.update ''Churn_Risk_Pct'' (PyFloat risk) telemetry)))"

definition retention_dossier ::
  "session_state \<Rightarrow> (py_exception + (string \<times> pydict) list \<times> pydict) option" where
  "retention_dossier st =
     (case churn_risk_score st of
        None \<Rightarrow> None
      | Some risk \<Rightarrow>
          Some (let ts = timestamp st;
                    sess_id = session_id st
                in case json_payload st risk ts sess_id of
                     Inl ex \<Rightarrow> Inl ex
                   | Inr jp \<Rightarrow>
                       (case csv_data jp risk ts of
                          Inl ex \<Rightarrow> Inl ex
                        | Inr csv \<Rightarrow> Inr (jp, csv))))"

text \<open>
  The data an export holds, whatever its layout: the values at the leaves of the nested
  dictionary, and the cells of the row.
\<close>

definition json_content :: "(string \<times> pydict) list \<Rightarrow> pyval list" where
  "json_content jp = map snd (concat (map snd jp))"

definition csv_content :: "pydict \<Rightarrow> pyval list" where
  "csv_content csv = map snd csv"

text \<open>The eight feature values of the record, in the order of \<^const>\<open>FEATURE_VECTORS\<close>.\<close>

definition feature_values :: "session_state \<Rightarrow> pyval list" where
  "feature_values st =
     [PyFloat (input_Age st), PyStr (input_Gender st), PyFloat (input_Support_Calls st),
      PyFloat (input_Payment_Delay st), PyStr (input_Subscription_Type st),
      PyFloat (input_Contract_Length st), PyFloat (input_Total_Spend st),
      PyFloat (input_Last_Interaction st)]"

text \<open>
  The statement of the interface description that both exports hold the same data and
  differ in layout only, read in the most permissive way: the same values, whatever their
  order, their multiplicity and the names they are stored under. It is about the states
  for which the exports are made.
\<close>

definition exports_same_content :: "session_state \<Rightarrow> bool" where
  "exports_same_content st =
     (case retention_dossier st of
        Some (Inr (jp, csv)) \<Rightarrow> set (json_content jp) = set (csv_content csv)
      | Some (Inl ex) \<Rightarrow> True
      | None \<Rightarrow> True)"

text \<open>The standard normal draws that \<open>n\<close> calls of the generator return from state \<open>g\<close>.\<close>

fun gauss_draws :: "('g \<Rightarrow> real \<times> 'g) \<Rightarrow> nat \<Rightarrow> 'g \<Rightarrow> real list" where
  "gauss_draws gauss 0 g = []"
| "gauss_draws gauss (Suc n) g = fst (gauss g) # gauss_draws gauss n (snd (gauss g))"

section \<open>Shared facts about the exports and the generator\<close>

lemma customer_telemetry_features:
  "customer_telemetry st FEATURE_VECTORS =
     Inr [(''Age'', PyFloat (input_Age st)),
          (''Gender'', PyStr (input_Gender st)),
          (''Support Calls'', PyFloat (input_Support_Calls st)),
          (''Payment Delay'', PyFloat (input_Payment_Delay st)),
          (''Subscription Type'', PyStr (input_Subscription_Type st)),
          (''Contract Length'', PyFloat (input_Contract_Length st)),
          (''Total Spend'', PyFloat (input_Total_Spend st)),
          (''Last Interaction'', PyFloat (input_Last_Interaction st))]"
  by (simp add: FEATURE_VECTORS_def session_state_getitem_def)

lemma retention_dossier_value:
  assumes "churn_risk_score st = Some r"
  shows "retention_dossier st =
     Some (Inr ([(''metadata'',
                   [(''transaction_id'', PyStr (session_id st)),
                    (''timestamp'', py_of_str_option (timestamp st)),
                    (''model_architecture'', PyStr ''DecisionTreeRegressor''),
                    (''validation_accuracy'', PyFloat 0.930)]),
                 (''churn_prediction'',
                   [(''risk_score_percentage'', PyFloat r),
                    (''status'', PyStr (dossier_status r))]),
                 (''customer_telemetry'',
                   [(''Age'', PyFloat (input_Age st)),
                    (''Gender'', PyStr (input_Gender st)),
                    (''Support Calls'', PyFloat (input_Support_Calls st)),
                    (''Payment Delay'', PyFloat (input_Payment_Delay st)),
                    (''Subscription Type'', PyStr (input_Subscription_Type st)),
                    (''Contract Length'', PyFloat (input_Contract_Length st)),
                    (''Total Spend'', PyFloat (input_Total_Spend st)),
                    (''Last Interaction'', PyFloat (input_Last_Interaction st))])],
                [(''Age'', PyFloat (input_Age st)),
                 (''Gender'', PyStr (input_Gender st)),
                 (''Support Calls'', PyFloat (input_Support_Calls st)),
                 (''Payment Delay'', PyFloat (input_Payment_Delay st)),
                 (''Subscription Type'', PyStr (input_Subscription_Type st)),
                 (''Contract Length'', PyFloat (input_Contract_Length st)),
                 (''Total Spend'', PyFloat (input_Total_Spend st)),
                 (''Last Interaction'', PyFloat (input_Last_Interaction st)),
                 (''Churn_Risk_Pct'', PyFloat r),
                 (''Timestamp'', py_of_str_option (timestamp st))]))"
  using assms
  by (simp add: retention_dossier_def json_payload_def csv_data_def
      customer_telemetry_features Let_def)

lemma np_random_normal_draws:
  "fst (np_random_normal gauss loc scale n g) =
     map (\<lambda>z. loc + scale * z) (gauss_draws gauss n g)"
  by (induction n arbitrary: g) (simp_all add: Let_def case_prod_beta)

lemma gauss_draws_length: "length (gauss_draws gauss n g) = n"
  by (induction n arbitrary: g) simp_all

lemma simulated_cohort_fst:
  "fst (simulated_cohort seed gauss g b) =
     map (\<lambda>z. min (max (b + 7 * z) 0) 100) (gauss_draws gauss 100 (seed 42))"
proof -
  have "fst (simulated_cohort seed gauss g b) =
          np_clip (fst (np_random_normal gauss b 7 100 (seed 42))) 0 100"
    by (simp add: simulated_cohort_def Let_def case_prod_beta)
  then show ?thesis
    by (simp add: np_random_normal_draws np_clip_def comp_def)
qed

lemma exports_same_content_member:
  assumes "exports_same_content st"
    and "retention_dossier st = Some (Inr (jp, csv))"
    and "v \<in> set (json_content jp)"
  shows "v \<in> set (csv_content csv)"
  using assms by (simp add: exports_same_content_def)

section \<open>Normalisation\<close>

text \<open>
  C1. For every real raw output \<open>r\<close>: when \<open>r \<le> 2\<close> the normalised risk is \<open>r\<close> clamped into
  \<open>[0, 1]\<close> and multiplied by 100; when \<open>r > 2\<close> it is \<open>min r 100\<close>. The result always lies
  in \<open>[0, 100]\<close>, and the raw outputs 0.42, 75 and 1.5 give 42, 75 and 100.
\<close>

theorem normalized_risk_branches:
  "(r \<le> 2 \<longrightarrow> normalized_risk r = min (max r 0) 1 * 100) \<and>
   (2 < r \<longrightarrow> normalized_risk r = min r 100) \<and>
   0 \<le> normalized_risk r \<and> normalized_risk r \<le> 100 \<and>
   normalized_risk 0.42 = 42 \<and> normalized_risk 75 = 75 \<and> normalized_risk 1.5 = 100"
  by (simp add: normalized_risk_def Let_def min_def max_def)

theorem normalized_risk_branches_witness:
  "(1/2 :: real) \<le> 2 \<and> normalized_risk (1/2) = 50 \<and>
   (2 :: real) < 250 \<and> normalized_risk 250 = 100"
  using normalized_risk_branches [of "1/2"] normalized_risk_branches [of 250]
  by simp

text \<open>
  C10. Normalisation is not monotone: every raw output in \<open>(1, 2]\<close> is mapped to 100, while a
  raw output in \<open>(2, 100]\<close> is returned as it is, so 1.5 gives 100 and 2.5 gives 2.5, and
  there are \<open>a < b\<close> whose normalised risks are in the opposite order.
\<close>

theorem normalized_risk_not_monotone:
  "(1 < r \<and> r \<le> 2 \<longrightarrow> normalized_risk r = 100) \<and>
   (2 < r \<and> r \<le> 100 \<longrightarrow> normalized_risk r = r) \<and>
   normalized_risk 1.5 = 100 \<and> normalized_risk 2.5 = 2.5 \<and>
   (\<exists>a b. a < b \<and> normalized_risk a > normalized_risk b) \<and>
   \<not> mono normalized_risk"
proof -
  have branches:
    "(1 < r \<and> r \<le> 2 \<longrightarrow> normalized_risk r = 100) \<and>
     (2 < r \<and> r \<le> 100 \<longrightarrow> normalized_risk r = r)"
    by (simp add: normalized_risk_def Let_def min_def max_def)
  have lo: "normalized_risk 1.5 = 100"
    by (simp add: normalized_risk_def Let_def)
  have hi: "normalized_risk 2.5 = 2.5"
    by (simp add: normalized_risk_def Let_def)
  have inv: "(1.5 :: real) < 2.5 \<and> normalized_risk 1.5 > normalized_risk 2.5"
    using lo hi by simp
  then have ex: "\<exists>a b. a < b \<and> normalized_risk a > normalized_risk b"
    by blast
  have "\<not> mono normalized_risk"
  proof
    assume "mono normalized_risk"
    then have "normalized_risk 1.5 \<le> normalized_risk 2.5"
      by (rule monoD) simp
    with lo hi show False by simp
  qed
  with branches lo hi ex show ?thesis by blast
qed

theorem normalized_risk_not_monotone_witness:
  "(1 :: real) < 1.25 \<and> (1.25 :: real) \<le> 2 \<and> normalized_risk 1.25 = 100 \<and>
   (2 :: real) < 2.25 \<and> (2.25 :: real) \<le> 100 \<and> normalized_risk 2.25 = 2.25"
  using normalized_risk_not_monotone [of "1.25"] normalized_risk_not_monotone [of "2.25"]
  by simp

section \<open>Classification bands\<close>

text \<open>
  C3. The title of the result box is the "high" one exactly when the risk exceeds 60, the
  "moderate" one exactly when \<open>30 < risk \<le> 60\<close>, and the "secure" one exactly when
  \<open>risk \<le> 30\<close>; a risk of 60 is moderate, 60.1 is high, and 30 is secure.
\<close>

theorem title_text_bands:
  "(title_text r = ''HIGH CHURN PROBABILITY DETECTED'') = (r > 60) \<and>
   (title_text r = ''MODERATE ATTRITION RISK'') = (30 < r \<and> r \<le> 60) \<and>
   (title_text r = ''CUSTOMER RETENTION SECURE'') = (r \<le> 30) \<and>
   title_text 60 = ''MODERATE ATTRITION RISK'' \<and>
   title_text 60.1 = ''HIGH CHURN PROBABILITY DETECTED'' \<and>
   title_text 30 = ''CUSTOMER RETENTION SECURE''"
  by (simp add: title_text_def)

theorem title_text_bands_witness:
  "title_text 45 = ''MODERATE ATTRITION RISK'' \<and>
   title_text 61 = ''HIGH CHURN PROBABILITY DETECTED'' \<and>
   title_text 12 = ''CUSTOMER RETENTION SECURE''"
  using title_text_bands [of 45] title_text_bands [of 61] title_text_bands [of 12]
  by simp

section \<open>The refused run\<close>

text \<open>
  C4. A run triggered while no predictor is loaded returns the error message and the
  session state it was given: the score, the timestamp and the latency are what they were,
  the result box shows what it showed, and a session that had no result still has none.
\<close>

theorem run_refused_without_model:
  "execute_churn_engine True None enc start_time end_time now st = (Some SYSTEM_HALT, st) \<and>
   churn_risk_score (snd (execute_churn_engine True None enc start_time end_time now st)) =
     churn_risk_score st \<and>
   timestamp (snd (execute_churn_engine True None enc start_time end_time now st)) =
     timestamp st \<and>
   compute_latency (snd (execute_churn_engine True None enc start_time end_time now st)) =
     compute_latency st \<and>
   render_primary_risk_output (snd (execute_churn_engine True None enc start_time end_time now st)) =
     render_primary_risk_output st \<and>
   churn_risk_score
     (snd (execute_churn_engine True None enc start_time end_time now (initial_session_state sid))) =
     None"
  by (simp add: execute_churn_engine_def initial_session_state_def)

theorem run_refused_without_model_witness:
  "execute_churn_engine True None None 10 11.25 ''2026-01-01 00:00:00 UTC''
     (initial_session_state ''CRM-IDX-1A2B3C4D'') =
   (Some SYSTEM_HALT, initial_session_state ''CRM-IDX-1A2B3C4D'')"
  using run_refused_without_model
    [of None 10 "11.25" "''2026-01-01 00:00:00 UTC''" "initial_session_state ''CRM-IDX-1A2B3C4D''"]
  by (rule conjunct1)

section \<open>Categorical encoding\<close>

text \<open>
  C5. The encoding is not field by field: one handler covers both lookups and assigns both
  codes. For a valid gender and subscription tier the encoding step always yields a pair
  of integer codes, whatever the encoder does: the codes of the encoder for both fields
  when both of its lookups succeed, and the codes of the manual tables (Female 0, Male 1,
  Other 2; Basic 0, Premium 1, Standard 2) for both fields when no encoder is loaded or
  when either lookup raises, also for the field whose own lookup succeeded.
\<close>

theorem encode_categoricals_never_raises:
  assumes "g \<in> {''Female'', ''Male'', ''Other''}"
    and "s \<in> {''Basic'', ''Standard'', ''Premium''}"
  shows
    "(let fallback = (if g = ''Female'' then 0 else if g = ''Male'' then 1 else 2,
                      if s = ''Basic'' then 0 else if s = ''Premium'' then 1 else 2)
      in encode_categoricals None g s = fallback \<and>
         (e ''Gender'' g = Inr gv \<and> e ''Subscription Type'' s = Inr sv \<longrightarrow>
            encode_categoricals (Some e) g s = (gv, sv)) \<and>
         (e ''Gender'' g = Inl ex \<or> e ''Subscription Type'' s = Inl ex \<longrightarrow>
            encode_categoricals (Some e) g s = fallback))"
proof -
  have tables:
    "(dict_get manual_gender g 0, dict_get manual_sub s 0) =
       (if g = ''Female'' then 0 else if g = ''Male'' then 1 else 2,
        if s = ''Basic'' then 0 else if s = ''Premium'' then 1 else 2)"
    using assms by (auto simp add: dict_get_def manual_gender_def manual_sub_def)
  show ?thesis
    unfolding Let_def tables [symmetric]
    by (auto simp add: encode_categoricals_def try_encoder_def split: sum.splits)
qed

theorem encode_categoricals_never_raises_witness:
  "''Male'' \<in> {''Female'', ''Male'', ''Other''} \<and>
   ''Premium'' \<in> {''Basic'', ''Standard'', ''Premium''} \<and>
   encode_categoricals None ''Male'' ''Premium'' = (1, 1) \<and>
   encode_categoricals (Some (\<lambda>column label. Inr 5)) ''Male'' ''Premium'' = (5, 5) \<and>
   encode_categoricals
     (Some (\<lambda>column label. if column = ''Gender'' then Inr 7 else Inl KeyError))
     ''Male'' ''Premium'' = (1, 1)"
proof -
  have g: "''Male'' \<in> {''Female'', ''Male'', ''Other''}" by simp
  have s: "''Premium'' \<in> {''Basic'', ''Standard'', ''Premium''}" by simp
  show ?thesis
    using g s
      encode_categoricals_never_raises [OF g s, where e = "\<lambda>column label. Inr 5"
        and gv = 5 and sv = 5]
      encode_categoricals_never_raises [OF g s,
        where e = "\<lambda>column label. if column = ''Gender'' then Inr 7 else Inl KeyError"
        and ex = KeyError]
    by (simp add: Let_def)
qed

theorem encode_per_field_counterexample:
  "encode_categoricals
     (Some (\<lambda>column label. if column = ''Gender'' then Inr 7 else Inl KeyError))
     ''Male'' ''Premium'' = (1, 1) \<and>
   encode_per_field
     (Some (\<lambda>column label. if column = ''Gender'' then Inr 7 else Inl KeyError))
     ''Male'' ''Premium'' = (7, 1) \<and>
   encode_categoricals
     (Some (\<lambda>column label. if column = ''Gender'' then Inr 7 else Inl KeyError))
     ''Male'' ''Premium'' \<noteq>
   encode_per_field
     (Some (\<lambda>column label. if column = ''Gender'' then Inr 7 else Inl KeyError))
     ''Male'' ''Premium''"
  by (simp add: encode_categoricals_def encode_per_field_def try_encoder_def dict_get_def
      manual_gender_def manual_sub_def)

section \<open>Feature assembly\<close>

text \<open>
  C6. The payload is one row of exactly eight numbers in the order age, gender code,
  support calls, payment delay, subscription code, contract length, total spend, last
  interaction, and this row, with the codes of whichever encoding path was taken, is what
  a run hands to the predictor.
\<close>

theorem payload_canonical_order:
  "payload st gv sv =
     [[input_Age st, real_of_int gv, input_Support_Calls st, input_Payment_Delay st,
       real_of_int sv, input_Contract_Length st, input_Total_Spend st,
       input_Last_Interaction st]] \<and>
   length (payload st gv sv) = 1 \<and>
   length (hd (payload st gv sv)) = 8 \<and>
   length (hd (payload st gv sv)) = length FEATURE_VECTORS \<and>
   execute_churn_engine True (Some m) enc start_time end_time now st =
     (None,
      st\<lparr>churn_risk_score := Some (normalized_risk (m
            [[input_Age st,
              real_of_int
                (fst (encode_categoricals enc (input_Gender st) (input_Subscription_Type st))),
              input_Support_Calls st,
              input_Payment_Delay st,
              real_of_int
                (snd (encode_categoricals enc (input_Gender st) (input_Subscription_Type st))),
              input_Contract_Length st,
              input_Total_Spend st,
              input_Last_Interaction st]])),
         timestamp := Some now,
         compute_latency := py_round (end_time - start_time) 3\<rparr>)"
  by (simp add: payload_def FEATURE_VECTORS_def execute_churn_engine_def Let_def
      case_prod_beta)

theorem payload_canonical_order_witness:
  "payload (initial_session_state ''CRM-IDX-1A2B3C4D'') 0 2 =
     [[35, 0, 2, 5, 2, 12, 1500, 14]] \<and>
   churn_risk_score
     (snd (execute_churn_engine True (Some (\<lambda>rows. hd rows ! 4 / 10)) None 10 11.25
        ''2026-01-01 00:00:00 UTC'' (initial_session_state ''CRM-IDX-1A2B3C4D''))) =
     Some 20"
proof -
  have codes: "encode_categoricals None ''Female'' ''Standard'' = (0, 2)"
    by (simp add: encode_categoricals_def try_encoder_def dict_get_def
        manual_gender_def manual_sub_def)
  have risk: "normalized_risk (2 / 10) = 20"
    by (simp add: normalized_risk_def Let_def)
  show ?thesis
    using codes risk
      payload_canonical_order [of "initial_session_state ''CRM-IDX-1A2B3C4D''" 0 2
        "\<lambda>rows. hd rows ! 4 / 10" None 10 "11.25" "''2026-01-01 00:00:00 UTC''"]
    by (simp add: initial_session_state_def)
qed

section \<open>Revenue simulation\<close>

text \<open>
  C7. With a stored score, total spend \<open>s\<close>, contract length \<open>c\<close> and risk fraction
  \<open>p = score / 100\<close>, the simulation gives monthly revenue \<open>s / (c + 1)\<close>, annual revenue
  twelve times that, the at-risk share \<open>annual * p\<close> and the secured share
  \<open>annual * (1 - p)\<close>. The division is defined for every contract length but \<open>-1\<close>, which
  the slider (1 to 36) cannot produce. Spend 1200, length 11 and a score of 25 give
  100, 1200, 300 at risk and 900 secured.
\<close>

theorem revenue_simulation_formulas:
  assumes "churn_risk_score st = Some score"
    and "input_Contract_Length st \<noteq> - 1"
  shows
    "revenue_simulation st =
       Some (Inr \<lparr>mrr = input_Total_Spend st / (input_Contract_Length st + 1),
                  annual_revenue =
                    12 * (input_Total_Spend st / (input_Contract_Length st + 1)),
                  revenue_at_risk =
                    12 * (input_Total_Spend st / (input_Contract_Length st + 1)) * (score / 100),
                  revenue_secured =
                    12 * (input_Total_Spend st / (input_Contract_Length st + 1)) *
                      (1 - score / 100)\<rparr>) \<and>
     revenue_simulation
       (st'\<lparr>input_Total_Spend := 1200, input_Contract_Length := 11,
            churn_risk_score := Some 25\<rparr>) =
       Some (Inr \<lparr>mrr = 100, annual_revenue = 1200, revenue_at_risk = 300,
                  revenue_secured = 900\<rparr>)"
proof -
  have "input_Contract_Length st + 1 \<noteq> 0"
    using assms(2) by (simp add: add_eq_0_iff)
  then have "py_truediv (input_Total_Spend st) (input_Contract_Length st + 1) =
               Inr (input_Total_Spend st / (input_Contract_Length st + 1))"
    by (simp add: py_truediv_def)
  then have general:
    "revenue_simulation st =
       Some (Inr \<lparr>mrr = input_Total_Spend st / (input_Contract_Length st + 1),
                  annual_revenue =
                    12 * (input_Total_Spend st / (input_Contract_Length st + 1)),
                  revenue_at_risk =
                    12 * (input_Total_Spend st / (input_Contract_Length st + 1)) * (score / 100),
                  revenue_secured =
                    12 * (input_Total_Spend st / (input_Contract_Length st + 1)) *
                      (1 - score / 100)\<rparr>)"
    using assms(1) by (simp add: revenue_simulation_def Let_def mult.commute)
  have example:
    "revenue_simulation
       (st'\<lparr>input_Total_Spend := 1200, input_Contract_Length := 11,
            churn_risk_score := Some 25\<rparr>) =
       Some (Inr \<lparr>mrr = 100, annual_revenue = 1200, revenue_at_risk = 300,
                  revenue_secured = 900\<rparr>)"
    by (simp add: revenue_simulation_def py_truediv_def Let_def)
  from general example show ?thesis ..
qed

theorem revenue_simulation_formulas_witness:
  "churn_risk_score
     ((initial_session_state ''CRM-IDX-1A2B3C4D'')\<lparr>churn_risk_score := Some 50\<rparr>) = Some 50 \<and>
   input_Contract_Length
     ((initial_session_state ''CRM-IDX-1A2B3C4D'')\<lparr>churn_risk_score := Some 50\<rparr>) \<noteq> - 1 \<and>
   revenue_simulation
     ((initial_session_state ''CRM-IDX-1A2B3C4D'')\<lparr>churn_risk_score := Some 50\<rparr>) =
     Some (Inr \<lparr>mrr = 1500 / 13, annual_revenue = 18000 / 13, revenue_at_risk = 9000 / 13,
                revenue_secured = 9000 / 13\<rparr>)"
proof -
  let ?st = "(initial_session_state ''CRM-IDX-1A2B3C4D'')\<lparr>churn_risk_score := Some 50\<rparr>"
  have score: "churn_risk_score ?st = Some 50"
    by simp
  have len: "input_Contract_Length ?st \<noteq> - 1"
    by (simp add: initial_session_state_def)
  show ?thesis
    using score len revenue_simulation_formulas [OF score len]
    by (simp add: initial_session_state_def)
qed

section \<open>Cohort simulation\<close>

text \<open>
  C8. Two runs of the cohort simulation with the same stored score give the same result,
  whatever state the generator was left in and whatever else differs in the two sessions:
  the simulation reseeds with 42 before it draws. The cohort is the list of the 100 values
  \<open>base + 7 * z\<close>, for the first 100 standard normal draws \<open>z\<close> after the seeding, each
  clipped to \<open>[0, 100]\<close>.
\<close>

theorem simulated_cohort_deterministic:
  assumes "churn_risk_score st1 = Some b"
    and "churn_risk_score st2 = Some b"
  shows
    "cohort_variance seed gauss g1 st1 = cohort_variance seed gauss g2 st2 \<and>
     map_option fst (cohort_variance seed gauss g1 st1) =
       Some (map (\<lambda>z. min (max (b + 7 * z) 0) 100) (gauss_draws gauss 100 (seed 42))) \<and>
     length (fst (simulated_cohort seed gauss g1 b)) = 100 \<and>
     list_all (\<lambda>x. 0 \<le> x \<and> x \<le> 100) (fst (simulated_cohort seed gauss g1 b))"
proof -
  have same: "simulated_cohort seed gauss g1 b = simulated_cohort seed gauss g2 b"
    by (simp add: simulated_cohort_def)
  have runs: "cohort_variance seed gauss g1 st1 = cohort_variance seed gauss g2 st2"
    using assms same by (simp add: cohort_variance_def)
  have elems: "map_option fst (cohort_variance seed gauss g1 st1) =
      Some (map (\<lambda>z. min (max (b + 7 * z) 0) 100) (gauss_draws gauss 100 (seed 42)))"
    using assms(1) by (simp add: cohort_variance_def simulated_cohort_fst)
  have len: "length (fst (simulated_cohort seed gauss g1 b)) = 100"
    by (simp add: simulated_cohort_fst gauss_draws_length)
  have bounds: "list_all (\<lambda>x. 0 \<le> x \<and> x \<le> 100) (fst (simulated_cohort seed gauss g1 b))"
    by (simp add: simulated_cohort_fst list_all_iff)
  from runs elems len bounds show ?thesis by blast
qed

theorem simulated_cohort_deterministic_witness:
  "cohort_variance (\<lambda>n. n) (\<lambda>g. (real g / 100, Suc g)) 0
     ((initial_session_state ''CRM-IDX-1A2B3C4D'')\<lparr>churn_risk_score := Some 40\<rparr>) =
   cohort_variance (\<lambda>n. n) (\<lambda>g. (real g / 100, Suc g)) 17
     ((initial_session_state ''CRM-IDX-9F8E7D6C'')\<lparr>input_Age := 50, churn_risk_score := Some 40\<rparr>)"
proof -
  have s1: "churn_risk_score
      ((initial_session_state ''CRM-IDX-1A2B3C4D'')\<lparr>churn_risk_score := Some 40\<rparr>) = Some 40"
    by simp
  have s2: "churn_risk_score
      ((initial_session_state ''CRM-IDX-9F8E7D6C'')\<lparr>input_Age := 50, churn_risk_score := Some 40\<rparr>) =
      Some 40"
    by simp
  show ?thesis
    using simulated_cohort_deterministic [OF s1 s2] by (rule conjunct1)
qed

section \<open>The exports\<close>

text \<open>
  C9. The status written into the JSON dossier is "High Risk" exactly when the stored score
  is at least 50 and "Secure" otherwise. The result box uses other thresholds: a score of
  55 is titled moderate there and exported as "High Risk".
\<close>

theorem dossier_status_threshold:
  assumes "churn_risk_score st = Some r"
  shows
    "(\<exists>jp csv. retention_dossier st = Some (Inr (jp, csv)) \<and>
        map_of jp ''churn_prediction'' =
          Some [(''risk_score_percentage'', PyFloat r),
                (''status'', PyStr (if r \<ge> 50 then ''High Risk'' else ''Secure''))]) \<and>
     (dossier_status r = ''High Risk'') = (r \<ge> 50) \<and>
     (dossier_status r = ''Secure'') = (r < 50) \<and>
     title_text 55 = ''MODERATE ATTRITION RISK'' \<and>
     dossier_status 55 = ''High Risk''"
proof -
  have "\<exists>jp csv. retention_dossier st = Some (Inr (jp, csv)) \<and>
        map_of jp ''churn_prediction'' =
          Some [(''risk_score_percentage'', PyFloat r),
                (''status'', PyStr (if r \<ge> 50 then ''High Risk'' else ''Secure''))]"
    unfolding retention_dossier_value [OF assms]
    by (simp add: dossier_status_def)
  moreover have "(dossier_status r = ''High Risk'') = (r \<ge> 50)"
    by (simp add: dossier_status_def)
  moreover have "(dossier_status r = ''Secure'') = (r < 50)"
    by (simp add: dossier_status_def not_le)
  moreover have "title_text 55 = ''MODERATE ATTRITION RISK''"
    by (simp add: title_text_def)
  moreover have "dossier_status 55 = ''High Risk''"
    by (simp add: dossier_status_def)
  ultimately show ?thesis by blast
qed

theorem dossier_status_threshold_witness:
  "churn_risk_score
     ((initial_session_state ''CRM-IDX-1A2B3C4D'')
        \<lparr>churn_risk_score := Some 55, timestamp := Some ''2026-01-01 00:00:00 UTC''\<rparr>) =
     Some 55 \<and>
   dossier_status 55 = ''High Risk'' \<and>
   (\<exists>jp csv.
      retention_dossier
        ((initial_session_state ''CRM-IDX-1A2B3C4D'')
           \<lparr>churn_risk_score := Some 55, timestamp := Some ''2026-01-01 00:00:00 UTC''\<rparr>) =
        Some (Inr (jp, csv)) \<and>
      map_of jp ''churn_prediction'' =
        Some [(''risk_score_percentage'', PyFloat 55), (''status'', PyStr ''High Risk'')])"
proof -
  let ?st = "(initial_session_state ''CRM-IDX-1A2B3C4D'')
        \<lparr>churn_risk_score := Some 55, timestamp := Some ''2026-01-01 00:00:00 UTC''\<rparr>"
  have score: "churn_risk_score ?st = Some 55"
    by simp
  show ?thesis
    using score dossier_status_threshold [OF score] by simp
qed

text \<open>
  C2. The two exports do not hold the same data. For every state with a stored score the
  CSV export is one row of ten cells, the eight feature values followed by the risk
  percentage and the timestamp, and each of them is also in the JSON export; the JSON
  export holds fourteen values: the transaction id, the timestamp, the model architecture
  name, the validation accuracy, the risk percentage and the status label, followed by the
  eight feature values.
\<close>

theorem exports_csv_within_json:
  assumes "churn_risk_score st = Some r"
  shows
    "\<exists>jp csv. retention_dossier st = Some (Inr (jp, csv)) \<and>
       map fst csv = FEATURE_VECTORS @ [''Churn_Risk_Pct'', ''Timestamp''] \<and>
       csv_content csv = feature_values st @ [PyFloat r, py_of_str_option (timestamp st)] \<and>
       json_content jp =
         [PyStr (session_id st), py_of_str_option (timestamp st),
          PyStr ''DecisionTreeRegressor'', PyFloat 0.930, PyFloat r,
          PyStr (dossier_status r)] @ feature_values st \<and>
       set (csv_content csv) \<subseteq> set (json_content jp) \<and>
       length (csv_content csv) = 10 \<and> length (json_content jp) = 14"
  unfolding retention_dossier_value [OF assms]
  by (simp add: FEATURE_VECTORS_def csv_content_def json_content_def feature_values_def)

theorem exports_csv_within_json_witness:
  "churn_risk_score
     ((initial_session_state ''CRM-IDX-1A2B3C4D'')
        \<lparr>churn_risk_score := Some 42, timestamp := Some ''2026-01-01 00:00:00 UTC''\<rparr>) =
     Some 42 \<and>
   (\<exists>jp csv.
      retention_dossier
        ((initial_session_state ''CRM-IDX-1A2B3C4D'')
           \<lparr>churn_risk_score := Some 42, timestamp := Some ''2026-01-01 00:00:00 UTC''\<rparr>) =
        Some (Inr (jp, csv)) \<and>
      csv_content csv =
        [PyFloat 35, PyStr ''Female'', PyFloat 2, PyFloat 5, PyStr ''Standard'', PyFloat 12,
         PyFloat 1500, PyFloat 14, PyFloat 42, PyStr ''2026-01-01 00:00:00 UTC''] \<and>
      json_content jp =
        [PyStr ''CRM-IDX-1A2B3C4D'', PyStr ''2026-01-01 00:00:00 UTC'',
         PyStr ''DecisionTreeRegressor'', PyFloat 0.930, PyFloat 42, PyStr ''Secure'',
         PyFloat 35, PyStr ''Female'', PyFloat 2, PyFloat 5, PyStr ''Standard'', PyFloat 12,
         PyFloat 1500, PyFloat 14])"
proof -
  let ?st = "(initial_session_state ''CRM-IDX-1A2B3C4D'')
        \<lparr>churn_risk_score := Some 42, timestamp := Some ''2026-01-01 00:00:00 UTC''\<rparr>"
  have score: "churn_risk_score ?st = Some 42"
    by simp
  obtain jp csv where
    "retention_dossier ?st = Some (Inr (jp, csv))"
    "csv_content csv = feature_values ?st @ [PyFloat 42, py_of_str_option (timestamp ?st)]"
    "json_content jp =
       [PyStr (session_id ?st), py_of_str_option (timestamp ?st),
        PyStr ''DecisionTreeRegressor'', PyFloat 0.930, PyFloat 42,
        PyStr (dossier_status 42)] @ feature_values ?st"
    using exports_csv_within_json [OF score] by blast
  then have
    "retention_dossier ?st = Some (Inr (jp, csv)) \<and>
     csv_content csv =
        [PyFloat 35, PyStr ''Female'', PyFloat 2, PyFloat 5, PyStr ''Standard'', PyFloat 12,
         PyFloat 1500, PyFloat 14, PyFloat 42, PyStr ''2026-01-01 00:00:00 UTC''] \<and>
     json_content jp =
        [PyStr ''CRM-IDX-1A2B3C4D'', PyStr ''2026-01-01 00:00:00 UTC'',
         PyStr ''DecisionTreeRegressor'', PyFloat 0.930, PyFloat 42, PyStr ''Secure'',
         PyFloat 35, PyStr ''Female'', PyFloat 2, PyFloat 5, PyStr ''Standard'', PyFloat 12,
         PyFloat 1500, PyFloat 14]"
    by (simp add: feature_values_def initial_session_state_def py_of_str_option_def
        dossier_status_def)
  with score show ?thesis by blast
qed

theorem exports_same_content_counterexample:
  "\<not> exports_same_content
       ((initial_session_state ''CRM-IDX-1A2B3C4D'')
          \<lparr>churn_risk_score := Some 42, timestamp := Some ''2026-01-01 00:00:00 UTC''\<rparr>)"
proof
  let ?st = "(initial_session_state ''CRM-IDX-1A2B3C4D'')
        \<lparr>churn_risk_score := Some 42, timestamp := Some ''2026-01-01 00:00:00 UTC''\<rparr>"
  assume same: "exports_same_content ?st"
  have score: "churn_risk_score ?st = Some 42"
    by simp
  have "PyStr ''DecisionTreeRegressor'' \<in> set (csv_content
      [(''Age'', PyFloat (input_Age ?st)),
       (''Gender'', PyStr (input_Gender ?st)),
       (''Support Calls'', PyFloat (input_Support_Calls ?st)),
       (''Payment Delay'', PyFloat (input_Payment_Delay ?st)),
       (''Subscription Type'', PyStr (input_Subscription_Type ?st)),
       (''Contract Length'', PyFloat (input_Contract_Length ?st)),
       (''Total Spend'', PyFloat (input_Total_Spend ?st)),
       (''Last Interaction'', PyFloat (input_Last_Interaction ?st)),
       (''Churn_Risk_Pct'', PyFloat 42),
       (''Timestamp'', py_of_str_option (timestamp ?st))])"
    by (rule exports_same_content_member [OF same retention_dossier_value [OF score]])
      (simp add: json_content_def)
  then show False
    by (simp add: csv_content_def initial_session_state_def py_of_str_option_def)
qed

end
